theory Spec2Isabelle
  imports Complex_Main "HOL-Library.AList" "HOL-Library.Char_ord" "HOL-Library.List_Lexorder"
begin

section \<open>The geocoding pipeline of CyberLabCaseTracker.py\<close>

text \<open>
  The development embeds the location-geocoding pipeline of the case tracker:
  the geocode cache (\<^verbatim>\<open>get_cached_location_db\<close>, \<^verbatim>\<open>add_cached_location_db\<close>),
  the map refresh (\<^verbatim>\<open>load_map_markers\<close>), the marker placer
  (\<^verbatim>\<open>_place_map_marker\<close>), the background worker
  (\<^verbatim>\<open>_geocode_locations_worker\<close>) and the poller
  (\<^verbatim>\<open>_process_geocoding_results\<close>).

  Conventions.
  \<^item> A Python \<^verbatim>\<open>str\<close> is a \<^typ>\<open>string\<close>; a character stands for the code point
    of the same number (code points below 256).
  \<^item> Latitudes and longitudes are floats that the program only stores, passes on and
    compares; they are modelled as \<^typ>\<open>real\<close>.
  \<^item> A Python \<^verbatim>\<open>dict\<close> is an association list in insertion order
    (\<^const>\<open>AList.update\<close> overwrites in place or appends, as assignment to a key does).
  \<^item> Everything the environment decides (the answer of the geocoding provider, whether
    a database operation fails, the text of the current time) is read from an
    \<open>env\<close> record, indexed by how many provider calls or database operations came before.
  \<^item> \<^verbatim>\<open>logging\<close> calls append an entry to a log kept in the state.
\<close>

subsection \<open>String helpers\<close>

text \<open>\<^verbatim>\<open>str.isspace\<close> on code points below 256: 9-13, 28-32, 133 and 160.\<close>

definition isspace :: "char \<Rightarrow> bool" where
  "isspace c =
     (let n = (of_char c :: nat)
      in (9 \<le> n \<and> n \<le> 13) \<or> (28 \<le> n \<and> n \<le> 32) \<or> n = 133 \<or> n = 160)"

text \<open>\<^verbatim>\<open>s.strip()\<close>: leading and trailing whitespace removed.\<close>

definition strip :: "string \<Rightarrow> string" where
  "strip s = rev (dropWhile isspace (rev (dropWhile isspace s)))"

text \<open>\<^verbatim>\<open>x or ''\<close> for a column value that is a string or \<^verbatim>\<open>None\<close>.\<close>

definition or_empty :: "string option \<Rightarrow> string" where
  "or_empty v = (case v of None \<Rightarrow> [] | Some s \<Rightarrow> s)"

text \<open>Truth value of a column value: \<^verbatim>\<open>None\<close> and the empty string are false.\<close>

definition truthy :: "string option \<Rightarrow> bool" where
  "truthy v = (case v of None \<Rightarrow> False | Some s \<Rightarrow> s \<noteq> [])"

text \<open>\<^verbatim>\<open>sep.join(xs)\<close>.\<close>

fun join_str :: "string \<Rightarrow> string list \<Rightarrow> string" where
  "join_str sep [] = []"
| "join_str sep [x] = x"
| "join_str sep (x # y # ys) = x @ sep @ join_str sep (y # ys)"

subsection \<open>Data model\<close>

text \<open>
  A row of table \<^verbatim>\<open>case_log\<close>, as the dictionary \<^verbatim>\<open>get_all_cases_db\<close> returns
  it; only the columns the pipeline reads are kept. A \<^verbatim>\<open>NULL\<close> column is \<open>None\<close>.
\<close>

record case_record =
  case_id :: int
  city_of_offense :: "string option"
  state_of_offense :: "string option"
  offense_type :: "string option"

type_synonym coords = "real \<times> real"

text \<open>The dictionary key \<^verbatim>\<open>(city, state)\<close>.\<close>

type_synonym location = "string \<times> string"

text \<open>A row of table \<^verbatim>\<open>geocache\<close> (primary key \<^verbatim>\<open>location_key\<close>).\<close>

record geocache_row =
  location_key :: string
  latitude :: real
  longitude :: real
  last_accessed :: string

text \<open>
  What \<^verbatim>\<open>map_widget.set_marker(lat, lon, text="", icon=..., command=...)\<close> draws:
  the position and the \<^verbatim>\<open>info_text\<close> bound into the click handler.
\<close>

record marker =
  marker_lat :: real
  marker_lon :: real
  marker_info :: string

text \<open>Exceptions the worker's \<^verbatim>\<open>try\<close> block can see.\<close>

datatype py_exn = GeocoderTimedOut | GeocoderUnavailable | GeocoderServiceError | AttributeError

text \<open>\<^verbatim>\<open>geolocator.geocode(query, timeout=10)\<close>: a location, \<^verbatim>\<open>None\<close>, or an exception.\<close>

datatype geocode_outcome = Found real real | No_match | Raised py_exn

text \<open>
  Where a database function fails, if it does: in \<^verbatim>\<open>sqlite3.connect\<close>, in
  \<^verbatim>\<open>cursor.execute\<close> (or the fetch), or in \<^verbatim>\<open>conn.commit\<close>.
\<close>

datatype db_fault = Db_ok | Connect_fails | Execute_fails | Commit_fails

datatype log_level = DEBUG | INFO | WARNING | ERROR

datatype log_entry =
    Log_cache_hit string
  | Log_cache_miss string
  | Log_cache_read_error string
  | Log_cached string real real
  | Log_cache_write_error string
  | Log_cases_read_error
  | Log_found_locations nat
  | Log_marker_set string string real real
  | Log_marker_failed string string
  | Log_geocoded string string real real
  | Log_geocode_failed string string
  | Log_geocode_error string string py_exn

fun level_of :: "log_entry \<Rightarrow> log_level" where
  "level_of (Log_cache_hit k) = DEBUG"
| "level_of (Log_cache_miss k) = DEBUG"
| "level_of (Log_cache_read_error k) = ERROR"
| "level_of (Log_cached k lat lon) = INFO"
| "level_of (Log_cache_write_error k) = ERROR"
| "level_of Log_cases_read_error = ERROR"
| "level_of (Log_found_locations n) = INFO"
| "level_of (Log_marker_set c s lat lon) = INFO"
| "level_of (Log_marker_failed c s) = ERROR"
| "level_of (Log_geocoded c s lat lon) = INFO"
| "level_of (Log_geocode_failed c s) = WARNING"
| "level_of (Log_geocode_error c s e) = WARNING"

subsection \<open>The geocode cache\<close>

text \<open>\<^verbatim>\<open>SELECT latitude, longitude FROM geocache WHERE location_key = ?\<close>, then \<^verbatim>\<open>fetchone()\<close>.\<close>

definition select_geocache :: "geocache_row list \<Rightarrow> string \<Rightarrow> coords option" where
  "select_geocache tbl k =
     (case filter (\<lambda>r. location_key r = k) tbl of
        [] \<Rightarrow> None
      | r # _ \<Rightarrow> Some (latitude r, longitude r))"

text \<open>
  \<^verbatim>\<open>INSERT OR REPLACE INTO geocache ...\<close>: the rows that conflict on the primary key
  are deleted, then the new row is inserted.
\<close>

definition insert_or_replace :: "geocache_row \<Rightarrow> geocache_row list \<Rightarrow> geocache_row list" where
  "insert_or_replace r tbl = filter (\<lambda>x. location_key x \<noteq> location_key r) tbl @ [r]"

text \<open>The \<^verbatim>\<open>try\<close> block of \<^verbatim>\<open>get_cached_location_db\<close>: \<open>Inl\<close> is a raised exception.\<close>

definition get_cached_location_try :: "db_fault \<Rightarrow> geocache_row list \<Rightarrow> string \<Rightarrow> db_fault + coords option" where
  "get_cached_location_try f tbl k =
     (if f = Connect_fails then Inl f
      else if f = Execute_fails then Inl f
      else Inr (select_geocache tbl k))"

text \<open>
  \<^verbatim>\<open>get_cached_location_db(location_key)\<close>: the value returned and the line logged.
  The \<^verbatim>\<open>except Exception\<close> clause turns every exception of the block into \<^verbatim>\<open>None\<close>.
\<close>

definition get_cached_location_db :: "db_fault \<Rightarrow> geocache_row list \<Rightarrow> string \<Rightarrow> coords option \<times> log_entry" where
  "get_cached_location_db f tbl k =
     (case get_cached_location_try f tbl k of
        Inr (Some row) \<Rightarrow> (Some (fst row, snd row), Log_cache_hit k)
      | Inr None \<Rightarrow> (None, Log_cache_miss k)
      | Inl e \<Rightarrow> (None, Log_cache_read_error k))"

text \<open>
  The \<^verbatim>\<open>try\<close> block of \<^verbatim>\<open>add_cached_location_db\<close>. A failed commit leaves the table
  as it was: the connection is closed without committing.
\<close>

definition add_cached_location_try :: "db_fault \<Rightarrow> string \<Rightarrow> geocache_row list \<Rightarrow> string \<Rightarrow> real \<Rightarrow> real \<Rightarrow> db_fault + geocache_row list" where
  "add_cached_location_try f timestamp tbl k lat lon =
     (if f = Connect_fails then Inl f
      else if f = Execute_fails then Inl f
      else if f = Commit_fails then Inl f
      else Inr (insert_or_replace
                  \<lparr>location_key = k, latitude = lat, longitude = lon, last_accessed = timestamp\<rparr> tbl))"

text \<open>
  \<^verbatim>\<open>add_cached_location_db(location_key, latitude, longitude)\<close>: the value returned,
  the table afterwards and the line logged.
\<close>

definition add_cached_location_db :: "db_fault \<Rightarrow> string \<Rightarrow> geocache_row list \<Rightarrow> string \<Rightarrow> real \<Rightarrow> real \<Rightarrow> bool \<times> geocache_row list \<times> log_entry" where
  "add_cached_location_db f timestamp tbl k lat lon =
     (case add_cached_location_try f timestamp tbl k lat lon of
        Inr tbl' \<Rightarrow> (True, tbl', Log_cached k lat lon)
      | Inl e \<Rightarrow> (False, tbl, Log_cache_write_error k))"

text \<open>\<^verbatim>\<open>get_all_cases_db()\<close>: every row of \<^verbatim>\<open>case_log\<close>, or the empty list on an error.\<close>

definition get_all_cases_db :: "db_fault \<Rightarrow> case_record list \<Rightarrow> case_record list \<times> log_entry list" where
  "get_all_cases_db f tbl =
     (if f = Connect_fails \<or> f = Execute_fails then ([], [Log_cases_read_error])
      else (tbl, []))"

subsection \<open>Application state\<close>

text \<open>
  \<^verbatim>\<open>self.geocoding_thread\<close>: \<^verbatim>\<open>None\<close>; started, the body not yet entered; inside the
  body; returned. \<^verbatim>\<open>is_alive()\<close> holds from \<^verbatim>\<open>start()\<close> until the body returns.
\<close>

datatype thread_state = No_thread | Thread_started | Thread_running | Thread_finished

fun is_alive :: "thread_state \<Rightarrow> bool" where
  "is_alive Thread_started = True"
| "is_alive Thread_running = True"
| "is_alive No_thread = False"
| "is_alive Thread_finished = False"

text \<open>The texts written to \<^verbatim>\<open>map_status_label\<close>, with the counts they show.\<close>

datatype map_status =
    Status_blank
  | Status_no_widget
  | Status_to_geocode nat nat
  | Status_all_cached nat
  | Status_with_geocoding nat
  | Status_all_done nat

text \<open>
  The attributes of \<^verbatim>\<open>CaseLogApp\<close> the pipeline uses, the two database tables, and
  what the environment has seen so far.
  \<^item> \<open>map_widget\<close>: \<open>None\<close> when \<^verbatim>\<open>self.map_widget\<close> is \<^verbatim>\<open>None\<close>, else the markers
    drawn on the widget.
  \<^item> \<open>geocoded_results\<close>: \<open>None\<close> while the attribute \<^verbatim>\<open>_geocoded_results\<close> does not
    exist.
  \<^item> \<open>scheduled_polls\<close>: the \<^verbatim>\<open>root.after(500, self._process_geocoding_results)\<close>
    callbacks that have not fired yet.
  \<^item> \<open>clock\<close>: the milliseconds the worker has spent in \<^verbatim>\<open>time.sleep\<close>, a lower bound
    of the wall clock.
  \<^item> \<open>provider_calls\<close>: the provider calls made so far, each with the clock at the call
    and the query text.
  \<^item> \<open>db_ops\<close>: the number of database functions called so far.
\<close>

record app =
  case_log :: "case_record list"
  geocache :: "geocache_row list"
  map_widget :: "marker list option"
  map_status_label :: "map_status option"
  map_markers :: "(location \<times> marker) list"
  grouped_cases_by_location :: "(location \<times> case_record list) list"
  geocoding_queue :: "location list"
  pending_marker_locations :: "location list"
  geocoded_results :: "(string \<times> string \<times> coords) list option"
  geocoding_thread :: thread_state
  processing_queue :: bool
  scheduled_polls :: nat
  clock :: nat
  provider_calls :: "(nat \<times> string) list"
  db_ops :: nat
  app_log :: "log_entry list"

record env =
  geocode :: "nat \<Rightarrow> string \<Rightarrow> geocode_outcome"
  db_fault_at :: "nat \<Rightarrow> db_fault"
  now_text :: "nat \<Rightarrow> string"

text \<open>\<^verbatim>\<open>if self.map_status_label: self.map_status_label.config(text=...)\<close>.\<close>

definition set_status :: "map_status \<Rightarrow> app \<Rightarrow> app" where
  "set_status s st =
     (case map_status_label st of
        None \<Rightarrow> st
      | Some old \<Rightarrow> st\<lparr>map_status_label := Some s\<rparr>)"

subsection \<open>Grouping\<close>

text \<open>
  The grouping loop of \<^verbatim>\<open>load_map_markers\<close>, from the cases still to visit and the
  dictionary \<^verbatim>\<open>grouped\<close> built so far.
\<close>

fun group_cases :: "case_record list \<Rightarrow> (location \<times> case_record list) list \<Rightarrow> (location \<times> case_record list) list" where
  "group_cases [] grouped = grouped"
| "group_cases (c # cs) grouped =
     (let city = strip (or_empty (city_of_offense c));
          state = strip (or_empty (state_of_offense c))
      in if city = [] \<or> state = [] then group_cases cs grouped
         else
           (let key = (city, state);
                grouped1 = (if map_of grouped key = None then AList.update key [] grouped else grouped);
                members = (case map_of grouped1 key of None \<Rightarrow> [] | Some l \<Rightarrow> l)
            in group_cases cs (AList.update key (members @ [c]) grouped1)))"

subsection \<open>Marker placer\<close>

text \<open>
  \<^verbatim>\<open>sorted(set((c.get('offense_type') or '').strip() for c in city_cases if c.get('offense_type')))\<close>:
  the filter tests the stored value, the set collects the stripped one.
\<close>

definition offenses_of :: "case_record list \<Rightarrow> string list" where
  "offenses_of city_cases =
     sort (remdups (map (\<lambda>c. strip (or_empty (offense_type c)))
                        (filter (\<lambda>c. truthy (offense_type c)) city_cases)))"

definition offense_str_of :: "string list \<Rightarrow> string" where
  "offense_str_of offenses =
     (if offenses \<noteq> [] then join_str '', '' offenses else ''No offenses recorded'')"

definition info_text_of :: "string \<Rightarrow> string \<Rightarrow> case_record list \<Rightarrow> string" where
  "info_text_of city state city_cases =
     city @ '', '' @ state @ [CHR 0x0A] @ ''Offense Types: '' @ offense_str_of (offenses_of city_cases)"

text \<open>
  \<^verbatim>\<open>_place_map_marker(city, state, coords)\<close>. With \<^verbatim>\<open>self.map_widget\<close> being \<^verbatim>\<open>None\<close> the
  call of \<^verbatim>\<open>set_marker\<close> raises, and the \<^verbatim>\<open>except\<close> clause logs the failure; a widget that
  exists draws the marker and returns it.
\<close>

definition place_map_marker :: "string \<Rightarrow> string \<Rightarrow> coords \<Rightarrow> app \<Rightarrow> app" where
  "place_map_marker city state coords st =
     (let lat = fst coords; lon = snd coords;
          city_cases = (case map_of (grouped_cases_by_location st) (city, state) of
                          None \<Rightarrow> [] | Some cs \<Rightarrow> cs);
          info_text = info_text_of city state city_cases
      in case map_widget st of
           None \<Rightarrow> st\<lparr>app_log := app_log st @ [Log_marker_failed city state]\<rparr>
         | Some drawn \<Rightarrow>
             (let m = \<lparr>marker_lat = lat, marker_lon = lon, marker_info = info_text\<rparr>
              in st\<lparr>map_widget := Some (drawn @ [m]),
                    map_markers := AList.update (city, state) m (map_markers st),
                    app_log := app_log st @ [Log_marker_set city state lat lon]\<rparr>))"

subsection \<open>Map refresh\<close>

text \<open>
  The loop \<^verbatim>\<open>for (city, state) in grouped\<close> of \<^verbatim>\<open>load_map_markers\<close>: a cache hit places
  the marker at once, a miss (or a failed lookup) is queued.
\<close>

fun partition_locations :: "env \<Rightarrow> location list \<Rightarrow> app \<Rightarrow> app" where
  "partition_locations ev [] st = st"
| "partition_locations ev ((city, state) # ks) st =
     (let location_key = city @ ''|'' @ state;
          res = get_cached_location_db (db_fault_at ev (db_ops st)) (geocache st) location_key;
          st1 = st\<lparr>db_ops := Suc (db_ops st), app_log := app_log st @ [snd res]\<rparr>
      in case fst res of
           Some coords \<Rightarrow> partition_locations ev ks (place_map_marker city state coords st1)
         | None \<Rightarrow>
             partition_locations ev ks
               (st1\<lparr>pending_marker_locations := pending_marker_locations st1 @ [(city, state)],
                    geocoding_queue := geocoding_queue st1 @ [(city, state)]\<rparr>))"

text \<open>
  \<^verbatim>\<open>load_map_markers()\<close>. Starting the thread only marks it started; its body runs
  in later worker steps.
\<close>

definition load_map_markers :: "env \<Rightarrow> app \<Rightarrow> app" where
  "load_map_markers ev st =
     (case map_widget st of
        None \<Rightarrow> set_status Status_no_widget st
      | Some drawn \<Rightarrow>
          (let st1 = st\<lparr>map_widget := Some []\<rparr>;
               res = get_all_cases_db (db_fault_at ev (db_ops st1)) (case_log st1);
               cases = fst res;
               grouped = group_cases cases [];
               st2 = st1\<lparr>db_ops := Suc (db_ops st1),
                         app_log := app_log st1 @ snd res @ [Log_found_locations (length grouped)],
                         map_markers := [],
                         grouped_cases_by_location := grouped,
                         geocoding_queue := [],
                         pending_marker_locations := []\<rparr>;
               st3 = partition_locations ev (map fst grouped) st2;
               st4 = set_status (Status_to_geocode (length (map_markers st3))
                                    (length (pending_marker_locations st3))) st3
           in if pending_marker_locations st4 \<noteq> [] then
                (if \<not> is_alive (geocoding_thread st4) then
                   st4\<lparr>geocoding_thread := Thread_started,
                       processing_queue := True,
                       scheduled_polls := Suc (scheduled_polls st4)\<rparr>
                 else
                   st4\<lparr>processing_queue := True,
                       scheduled_polls := Suc (scheduled_polls st4)\<rparr>)
              else
                set_status (Status_all_cached (length (map_markers st4)))
                  (st4\<lparr>processing_queue := False\<rparr>)))"

subsection \<open>Geocode worker\<close>

text \<open>Entry of \<^verbatim>\<open>_geocode_locations_worker\<close>: \<^verbatim>\<open>self._geocoded_results = []\<close>.\<close>

definition worker_begin :: "app \<Rightarrow> app" where
  "worker_begin st = st\<lparr>geocoded_results := Some [], geocoding_thread := Thread_running\<rparr>"

text \<open>
  One pass through the body of the \<^verbatim>\<open>while\<close> loop. \<^verbatim>\<open>get_nowait()\<close> on an empty queue
  raises, and the loop is left. Otherwise the provider is called; on a location the
  cache is written and the triple appended (an \<^verbatim>\<open>append\<close> to a missing attribute
  raises inside the same \<^verbatim>\<open>try\<close>); every other outcome is logged. Then the worker
  sleeps one second.
\<close>

definition worker_iteration :: "env \<Rightarrow> app \<Rightarrow> app" where
  "worker_iteration ev st =
     (case geocoding_queue st of
        [] \<Rightarrow> st
      | (city, state) # rest \<Rightarrow>
          (let query = city @ '', '' @ state @ '', USA'';
               outcome = geocode ev (length (provider_calls st)) query;
               st1 = st\<lparr>geocoding_queue := rest,
                        provider_calls := provider_calls st @ [(clock st, query)]\<rparr>;
               st2 =
                 (case outcome of
                    Found lat lon \<Rightarrow>
                      (let res = add_cached_location_db (db_fault_at ev (db_ops st1))
                                   (now_text ev (db_ops st1)) (geocache st1)
                                   (city @ ''|'' @ state) lat lon;
                           st' = st1\<lparr>geocache := fst (snd res),
                                     db_ops := Suc (db_ops st1),
                                     app_log := app_log st1 @ [snd (snd res)]\<rparr>
                       in case geocoded_results st' of
                            Some rs \<Rightarrow>
                              st'\<lparr>geocoded_results := Some (rs @ [(city, state, (lat, lon))]),
                                  app_log := app_log st' @ [Log_geocoded city state lat lon]\<rparr>
                          | None \<Rightarrow>
                              st'\<lparr>app_log := app_log st' @ [Log_geocode_error city state AttributeError]\<rparr>)
                  | No_match \<Rightarrow> st1\<lparr>app_log := app_log st1 @ [Log_geocode_failed city state]\<rparr>
                  | Raised e \<Rightarrow> st1\<lparr>app_log := app_log st1 @ [Log_geocode_error city state e]\<rparr>)
           in st2\<lparr>clock := clock st2 + 1000\<rparr>))"

text \<open>The \<^verbatim>\<open>while not self.geocoding_queue.empty()\<close> loop, run without interruption.\<close>

function worker_loop :: "env \<Rightarrow> app \<Rightarrow> app" where
  "worker_loop ev st =
     (if geocoding_queue st = [] then st\<lparr>geocoding_thread := Thread_finished\<rparr>
      else worker_loop ev (worker_iteration ev st))"
  by pat_completeness auto

text \<open>Every pass takes one item off the queue, so the loop ends.\<close>

termination worker_loop
  by (relation "measure (\<lambda>(ev, st). length (geocoding_queue st))")
     (auto simp: worker_iteration_def Let_def
           split: list.splits geocode_outcome.splits option.splits prod.splits)

text \<open>\<^verbatim>\<open>_geocode_locations_worker()\<close> from entry to return.\<close>

definition geocode_locations_worker :: "env \<Rightarrow> app \<Rightarrow> app" where
  "geocode_locations_worker ev st = worker_loop ev (worker_begin st)"

subsection \<open>Poller\<close>

text \<open>The loop \<^verbatim>\<open>for city, state, coords in self._geocoded_results\<close>.\<close>

definition place_all :: "(string \<times> string \<times> coords) list \<Rightarrow> app \<Rightarrow> app" where
  "place_all rs st = fold (\<lambda>(city, state, coords). place_map_marker city state coords) rs st"

text \<open>\<^verbatim>\<open>_process_geocoding_results()\<close>, the body of one poll tick.\<close>

definition process_geocoding_results :: "app \<Rightarrow> app" where
  "process_geocoding_results st =
     (let st1 =
            (case geocoded_results st of
               None \<Rightarrow> st
             | Some [] \<Rightarrow> st
             | Some (r # rs) \<Rightarrow>
                 (let st' = place_all (r # rs) st
                  in set_status (Status_with_geocoding (length (map_markers st')))
                       (st'\<lparr>geocoded_results := Some []\<rparr>)))
      in if is_alive (geocoding_thread st1) then
           st1\<lparr>scheduled_polls := Suc (scheduled_polls st1)\<rparr>
         else
           set_status (Status_all_done (length (map_markers st1)))
             (st1\<lparr>processing_queue := False\<rparr>))"

subsection \<open>Interleaving of the worker thread and the event loop\<close>

text \<open>
  The worker thread and the poll ticks of the event loop interleave. A schedule is a list
  of events, each carried out as a whole: a worker step enters the body, runs one pass
  of the loop, or leaves the loop when the queue is empty; a poll tick fires one
  scheduled callback, if there is one.
\<close>

datatype event = Worker_step | Poll_tick

fun step :: "env \<Rightarrow> event \<Rightarrow> app \<Rightarrow> app" where
  "step ev Worker_step st =
     (case geocoding_thread st of
        Thread_started \<Rightarrow> worker_begin st
      | Thread_running \<Rightarrow>
          (if geocoding_queue st = [] then st\<lparr>geocoding_thread := Thread_finished\<rparr>
           else worker_iteration ev st)
      | No_thread \<Rightarrow> st
      | Thread_finished \<Rightarrow> st)"
| "step ev Poll_tick st =
     (if scheduled_polls st = 0 then st
      else process_geocoding_results (st\<lparr>scheduled_polls := scheduled_polls st - 1\<rparr>))"

fun run :: "env \<Rightarrow> event list \<Rightarrow> app \<Rightarrow> app" where
  "run ev [] st = st"
| "run ev (e # es) st = run ev es (step ev e st)"

text \<open>Nothing is left to do: no live worker and no poll tick scheduled.\<close>

definition quiescent :: "app \<Rightarrow> bool" where
  "quiescent st = (\<not> is_alive (geocoding_thread st) \<and> scheduled_polls st = 0)"

subsection \<open>Notions used in the statements\<close>

text \<open>
  The location of a case as the specification describes it: city and state trimmed of
  surrounding whitespace, a missing value counting as empty. A case has a location when
  neither part is empty.
\<close>

definition location_of :: "case_record \<Rightarrow> location" where
  "location_of c = (strip (or_empty (city_of_offense c)), strip (or_empty (state_of_offense c)))"

definition has_location :: "case_record \<Rightarrow> bool" where
  "has_location c = (fst (location_of c) \<noteq> [] \<and> snd (location_of c) \<noteq> [])"

text \<open>The cases grouped under a location, in the order of the table.\<close>

definition members_of :: "location \<Rightarrow> case_record list \<Rightarrow> case_record list" where
  "members_of k cases = filter (\<lambda>c. has_location c \<and> location_of c = k) cases"

text \<open>The distinct non-empty (city, state) pairs among the cases.\<close>

definition location_pairs :: "case_record list \<Rightarrow> location list" where
  "location_pairs cases = remdups (map location_of (filter has_location cases))"

text \<open>The case records a refresh works on: what \<^verbatim>\<open>get_all_cases_db\<close> returns to it.\<close>

definition refresh_cases :: "env \<Rightarrow> app \<Rightarrow> case_record list" where
  "refresh_cases ev st = fst (get_all_cases_db (db_fault_at ev (db_ops st)) (case_log st))"

text \<open>The marker \<^verbatim>\<open>_place_map_marker\<close> builds for a location from the grouping in force.\<close>

definition marker_for :: "(location \<times> case_record list) list \<Rightarrow> string \<times> string \<times> coords \<Rightarrow> marker" where
  "marker_for grouped r =
     (case r of (city, state, coords) \<Rightarrow>
        \<lparr>marker_lat = fst coords, marker_lon = snd coords,
         marker_info = info_text_of city state
                         (case map_of grouped (city, state) of None \<Rightarrow> [] | Some cs \<Rightarrow> cs)\<rparr>)"

text \<open>The marker dictionary after placing a list of results, as a function of the dictionary before.\<close>

definition put_markers :: "(location \<times> case_record list) list \<Rightarrow> (string \<times> string \<times> coords) list \<Rightarrow> (location \<times> marker) list \<Rightarrow> (location \<times> marker) list" where
  "put_markers grouped rs ms = fold (\<lambda>r. AList.update (fst r, fst (snd r)) (marker_for grouped r)) rs ms"

text \<open>The entries of the results buffer; none while the attribute does not exist.\<close>

definition buffered :: "app \<Rightarrow> (string \<times> string \<times> coords) list" where
  "buffered st = (case geocoded_results st of None \<Rightarrow> [] | Some rs \<Rightarrow> rs)"

text \<open>
  The triples a worker appends while it works through a queue, the first provider call
  being call number \<open>n\<close>.
\<close>

fun future_results :: "env \<Rightarrow> nat \<Rightarrow> location list \<Rightarrow> (string \<times> string \<times> coords) list" where
  "future_results ev n [] = []"
| "future_results ev n ((city, state) # q) =
     (case geocode ev n (city @ '', '' @ state @ '', USA'') of
        Found lat lon \<Rightarrow> (city, state, (lat, lon)) # future_results ev (Suc n) q
      | No_match \<Rightarrow> future_results ev (Suc n) q
      | Raised e \<Rightarrow> future_results ev (Suc n) q)"

text \<open>What is still to be placed: the buffer, and what a live worker will add to it.\<close>

definition outstanding :: "env \<Rightarrow> app \<Rightarrow> (string \<times> string \<times> coords) list" where
  "outstanding ev st =
     buffered st @
     (if is_alive (geocoding_thread st)
      then future_results ev (length (provider_calls st)) (geocoding_queue st) else [])"

text \<open>
  A state in which worker and poller are in step: a worker that has not entered its body
  finds no buffered result, a worker inside its body has the buffer, and while the
  worker lives or the buffer holds a result a poll tick is scheduled.
\<close>

definition in_step :: "app \<Rightarrow> bool" where
  "in_step st =
     ((geocoding_thread st = Thread_started \<longrightarrow> buffered st = [])
      \<and> (geocoding_thread st = Thread_running \<longrightarrow> geocoded_results st \<noteq> None)
      \<and> (scheduled_polls st = 0 \<longrightarrow> \<not> is_alive (geocoding_thread st) \<and> buffered st = []))"

text \<open>
  Provider calls at least one second apart: successive entries of the call log differ by
  1000 ms or more, and the worker has slept 1000 ms since the last call.
\<close>

fun spaced :: "(nat \<times> string) list \<Rightarrow> bool" where
  "spaced [] = True"
| "spaced [c] = True"
| "spaced (c1 # c2 # cs) = (fst c1 + 1000 \<le> fst c2 \<and> spaced (c2 # cs))"

definition paced :: "app \<Rightarrow> bool" where
  "paced st =
     (spaced (provider_calls st)
      \<and> (provider_calls st \<noteq> [] \<longrightarrow> fst (last (provider_calls st)) + 1000 \<le> clock st))"

subsection \<open>Start-up state and sample data\<close>

text \<open>
  The attributes as \<^verbatim>\<open>__init__\<close> and \<^verbatim>\<open>create_widgets\<close> leave them, for given
  contents of the two tables: a map widget with no marker, an empty status label, no
  thread, and no attribute \<^verbatim>\<open>_geocoded_results\<close>.
\<close>

definition init_app :: "case_record list \<Rightarrow> geocache_row list \<Rightarrow> app" where
  "init_app cases cache =
     \<lparr>case_log = cases, geocache = cache, map_widget = Some [],
      map_status_label = Some Status_blank, map_markers = [],
      grouped_cases_by_location = [], geocoding_queue = [],
      pending_marker_locations = [], geocoded_results = None,
      geocoding_thread = No_thread, processing_queue = False, scheduled_polls = 0,
      clock = 0, provider_calls = [], db_ops = 0, app_log = []\<rparr>"

definition biloxi_row :: geocache_row where
  "biloxi_row = \<lparr>location_key = ''Biloxi|MS'', latitude = 30.39, longitude = -88.89,
                  last_accessed = ''2024-01-01 00:00:00''\<rparr>"

definition jackson_case :: "int \<Rightarrow> string \<Rightarrow> case_record" where
  "jackson_case i offense =
     \<lparr>case_id = i, city_of_offense = Some ''Jackson'', state_of_offense = Some ''MS'',
      offense_type = Some offense\<rparr>"

text \<open>A provider that finds nothing, one that finds every place, and one that times out on
  its first call and finds every place afterwards; the database never fails.\<close>

definition env_no_match :: env where
  "env_no_match = \<lparr>geocode = (\<lambda>n q. No_match), db_fault_at = (\<lambda>n. Db_ok),
                    now_text = (\<lambda>n. ''2024-01-01 00:00:00'')\<rparr>"

definition env_found :: env where
  "env_found = \<lparr>geocode = (\<lambda>n q. Found 32.3 (-90.2)), db_fault_at = (\<lambda>n. Db_ok),
                 now_text = (\<lambda>n. ''2024-01-01 00:00:00'')\<rparr>"

definition env_timeout_first :: env where
  "env_timeout_first =
     \<lparr>geocode = (\<lambda>n q. if n = 0 then Raised GeocoderTimedOut else Found 30.39 (-88.89)),
      db_fault_at = (\<lambda>n. Db_ok), now_text = (\<lambda>n. ''2024-01-01 00:00:00'')\<rparr>"

text \<open>A provider that finds every place while every database operation fails.\<close>

definition env_db_down :: env where
  "env_db_down = \<lparr>geocode = (\<lambda>n q. Found 32.3 (-90.2)), db_fault_at = (\<lambda>n. Execute_fails),
                   now_text = (\<lambda>n. ''2024-01-01 00:00:00'')\<rparr>"

section \<open>Properties of the geocode cache\<close>

lemma rows_of_key_insert_or_replace:
  "filter (\<lambda>x. location_key x = location_key r) (insert_or_replace r tbl) = [r]"
  by (induction tbl) (auto simp: insert_or_replace_def)

lemma distinct_insert_or_replace:
  "distinct (map location_key tbl) \<Longrightarrow> distinct (map location_key (insert_or_replace r tbl))"
  by (auto simp: insert_or_replace_def distinct_map_filter)

lemma rows_of_key_distinct:
  "distinct (map location_key tbl) \<Longrightarrow> r \<in> set tbl \<Longrightarrow>
   filter (\<lambda>x. location_key x = location_key r) tbl = [r]"
proof (induction tbl)
  case Nil
  then show ?case by simp
next
  case (Cons a tbl)
  show ?case
  proof (cases "a = r")
    case True
    with Cons.prems have "location_key r \<notin> location_key ` set tbl" by simp
    then have "\<forall>x\<in>set tbl. location_key x \<noteq> location_key r" by (metis imageI)
    then have "filter (\<lambda>x. location_key x = location_key r) tbl = []"
      by (simp add: filter_empty_conv)
    with True show ?thesis by simp
  next
    case False
    with Cons.prems have "r \<in> set tbl" "location_key a \<noteq> location_key r" by auto
    with Cons show ?thesis by simp
  qed
qed

lemma add_cached_location_db_True:
  "add_cached_location_db f ts tbl k lat lon = (True, tbl', e) \<Longrightarrow>
   f = Db_ok \<and> tbl' = insert_or_replace
        \<lparr>location_key = k, latitude = lat, longitude = lon, last_accessed = ts\<rparr> tbl"
  by (cases f) (auto simp: add_cached_location_db_def add_cached_location_try_def)

lemma add_cached_location_db_ok:
  "add_cached_location_db Db_ok ts tbl k lat lon =
     (True, insert_or_replace
              \<lparr>location_key = k, latitude = lat, longitude = lon, last_accessed = ts\<rparr> tbl,
      Log_cached k lat lon)"
  by (simp add: add_cached_location_db_def add_cached_location_try_def)

lemma add_cached_location_db_fault:
  "f \<noteq> Db_ok \<Longrightarrow> add_cached_location_db f ts tbl k lat lon = (False, tbl, Log_cache_write_error k)"
  by (cases f) (simp_all add: add_cached_location_db_def add_cached_location_try_def)

lemma get_cached_location_db_read:
  "f \<noteq> Connect_fails \<Longrightarrow> f \<noteq> Execute_fails \<Longrightarrow>
   fst (get_cached_location_db f tbl k) = select_geocache tbl k"
  by (auto simp: get_cached_location_db_def get_cached_location_try_def split: option.splits)

lemma get_after_insert_or_replace:
  assumes "f \<noteq> Connect_fails" "f \<noteq> Execute_fails"
  shows "fst (get_cached_location_db f
                (insert_or_replace
                   \<lparr>location_key = k, latitude = lat, longitude = lon, last_accessed = ts\<rparr> tbl) k)
         = Some (lat, lon)"
proof -
  let ?r = "\<lparr>location_key = k, latitude = lat, longitude = lon, last_accessed = ts\<rparr>"
  have "select_geocache (insert_or_replace ?r tbl) k = Some (lat, lon)"
    using rows_of_key_insert_or_replace [of ?r tbl] by (simp add: select_geocache_def)
  with assms show ?thesis by (simp add: get_cached_location_db_read)
qed

text \<open>
  Claim C2. For every location key and coordinate pair, a put that succeeds (returns
  \<^verbatim>\<open>True\<close>) followed by a get of the same key whose read of the database goes through
  returns exactly the latitude and longitude that were put.
\<close>

theorem cache_round_trip:
  assumes "add_cached_location_db f ts tbl k lat lon = (True, tbl', e)"
    and "f' \<noteq> Connect_fails" and "f' \<noteq> Execute_fails"
  shows "fst (get_cached_location_db f' tbl' k) = Some (lat, lon)"
  using assms by (auto dest!: add_cached_location_db_True simp: get_after_insert_or_replace)

theorem cache_round_trip_witness:
  "add_cached_location_db Db_ok ''2024-01-01 00:00:00'' [biloxi_row] ''Jackson|MS'' 32.3 (-90.2)
     = (True,
        [biloxi_row,
         \<lparr>location_key = ''Jackson|MS'', latitude = 32.3, longitude = -90.2,
          last_accessed = ''2024-01-01 00:00:00''\<rparr>],
        Log_cached ''Jackson|MS'' 32.3 (-90.2))
   \<and> fst (get_cached_location_db Db_ok
            [biloxi_row,
             \<lparr>location_key = ''Jackson|MS'', latitude = 32.3, longitude = -90.2,
              last_accessed = ''2024-01-01 00:00:00''\<rparr>] ''Jackson|MS'')
       = Some (32.3, -90.2)"
proof -
  have put: "add_cached_location_db Db_ok ''2024-01-01 00:00:00'' [biloxi_row] ''Jackson|MS'' 32.3 (-90.2)
     = (True,
        [biloxi_row,
         \<lparr>location_key = ''Jackson|MS'', latitude = 32.3, longitude = -90.2,
          last_accessed = ''2024-01-01 00:00:00''\<rparr>],
        Log_cached ''Jackson|MS'' 32.3 (-90.2))"
    by (simp add: add_cached_location_db_def add_cached_location_try_def insert_or_replace_def
                  biloxi_row_def)
  from cache_round_trip [OF put, of Db_ok] put show ?thesis by simp
qed

text \<open>
  Claim C3. The cache holds at most one entry per location key: on a table whose keys
  are distinct, two successive successful puts with the same key leave the keys
  distinct, leave exactly one row for that key, namely the row of the later put, and a
  get whose read goes through returns the coordinates of the later put.
\<close>

theorem cache_upsert:
  assumes key: "distinct (map location_key tbl)"
    and put1: "add_cached_location_db f1 ts1 tbl k lat1 lon1 = (True, tbl1, e1)"
    and put2: "add_cached_location_db f2 ts2 tbl1 k lat2 lon2 = (True, tbl2, e2)"
    and get: "f' \<noteq> Connect_fails" "f' \<noteq> Execute_fails"
  shows "distinct (map location_key tbl1) \<and> distinct (map location_key tbl2)
       \<and> filter (\<lambda>r. location_key r = k) tbl2
           = [\<lparr>location_key = k, latitude = lat2, longitude = lon2, last_accessed = ts2\<rparr>]
       \<and> fst (get_cached_location_db f' tbl2 k) = Some (lat2, lon2)"
proof -
  let ?r1 = "\<lparr>location_key = k, latitude = lat1, longitude = lon1, last_accessed = ts1\<rparr>"
  let ?r2 = "\<lparr>location_key = k, latitude = lat2, longitude = lon2, last_accessed = ts2\<rparr>"
  from put1 have tbl1: "tbl1 = insert_or_replace ?r1 tbl"
    by (simp add: add_cached_location_db_True)
  from put2 have tbl2: "tbl2 = insert_or_replace ?r2 tbl1"
    by (simp add: add_cached_location_db_True)
  have d1: "distinct (map location_key tbl1)"
    using key by (simp add: tbl1 distinct_insert_or_replace)
  have d2: "distinct (map location_key tbl2)"
    using d1 by (simp add: tbl2 distinct_insert_or_replace)
  have rows: "filter (\<lambda>r. location_key r = k) tbl2 = [?r2]"
    using rows_of_key_insert_or_replace [of ?r2 tbl1] by (simp add: tbl2)
  have "fst (get_cached_location_db f' tbl2 k) = Some (lat2, lon2)"
    using get by (simp add: tbl2 get_after_insert_or_replace)
  with d1 d2 rows show ?thesis by simp
qed

theorem cache_upsert_witness:
  "distinct (map location_key [biloxi_row])
   \<and> fst (add_cached_location_db Db_ok ''t1'' [biloxi_row] ''Biloxi|MS'' 1 2)
   \<and> fst (add_cached_location_db Db_ok ''t2''
            (fst (snd (add_cached_location_db Db_ok ''t1'' [biloxi_row] ''Biloxi|MS'' 1 2)))
            ''Biloxi|MS'' 3 4)
   \<and> fst (get_cached_location_db Db_ok
            [\<lparr>location_key = ''Biloxi|MS'', latitude = 3, longitude = 4, last_accessed = ''t2''\<rparr>]
            ''Biloxi|MS'') = Some (3, 4)"
proof -
  have key: "distinct (map location_key [biloxi_row])" by simp
  have put1: "add_cached_location_db Db_ok ''t1'' [biloxi_row] ''Biloxi|MS'' 1 2
      = (True, [\<lparr>location_key = ''Biloxi|MS'', latitude = 1, longitude = 2, last_accessed = ''t1''\<rparr>],
         Log_cached ''Biloxi|MS'' 1 2)"
    by (simp add: add_cached_location_db_def add_cached_location_try_def insert_or_replace_def
                  biloxi_row_def)
  have put2: "add_cached_location_db Db_ok ''t2''
        [\<lparr>location_key = ''Biloxi|MS'', latitude = 1, longitude = 2, last_accessed = ''t1''\<rparr>]
        ''Biloxi|MS'' 3 4
      = (True, [\<lparr>location_key = ''Biloxi|MS'', latitude = 3, longitude = 4, last_accessed = ''t2''\<rparr>],
         Log_cached ''Biloxi|MS'' 3 4)"
    by (simp add: add_cached_location_db_def add_cached_location_try_def insert_or_replace_def)
  from cache_upsert [OF key put1 put2, of Db_ok] put1 put2 show ?thesis by simp
qed

text \<open>
  Claim C5. A cache lookup never raises to its caller: the function has a value for every
  key, table and fault. When the connection or the query fails, the value is nothing and
  an error is logged; when no row has the key, the value is nothing; when a row has the
  key (keys being distinct), the value is the latitude and longitude stored in that row.
\<close>

theorem cache_get_never_raises:
  "(f = Connect_fails \<or> f = Execute_fails \<longrightarrow>
      get_cached_location_db f tbl k = (None, Log_cache_read_error k)
      \<and> level_of (Log_cache_read_error k) = ERROR)
   \<and> (f \<noteq> Connect_fails \<and> f \<noteq> Execute_fails \<and> k \<notin> location_key ` set tbl \<longrightarrow>
      get_cached_location_db f tbl k = (None, Log_cache_miss k))
   \<and> (f \<noteq> Connect_fails \<and> f \<noteq> Execute_fails \<and> distinct (map location_key tbl)
      \<and> r \<in> set tbl \<and> location_key r = k \<longrightarrow>
      get_cached_location_db f tbl k = (Some (latitude r, longitude r), Log_cache_hit k))"
proof (intro conjI impI)
  assume "f = Connect_fails \<or> f = Execute_fails"
  then show "get_cached_location_db f tbl k = (None, Log_cache_read_error k)"
    by (auto simp: get_cached_location_db_def get_cached_location_try_def)
next
  show "level_of (Log_cache_read_error k) = ERROR" by simp
next
  assume "f \<noteq> Connect_fails \<and> f \<noteq> Execute_fails \<and> k \<notin> location_key ` set tbl"
  moreover from this have "filter (\<lambda>r. location_key r = k) tbl = []"
    by (auto simp: filter_empty_conv)
  ultimately show "get_cached_location_db f tbl k = (None, Log_cache_miss k)"
    by (simp add: get_cached_location_db_def get_cached_location_try_def select_geocache_def)
next
  assume a: "f \<noteq> Connect_fails \<and> f \<noteq> Execute_fails \<and> distinct (map location_key tbl)
      \<and> r \<in> set tbl \<and> location_key r = k"
  then have "filter (\<lambda>x. location_key x = k) tbl = [r]"
    using rows_of_key_distinct [of tbl r] by auto
  with a show "get_cached_location_db f tbl k = (Some (latitude r, longitude r), Log_cache_hit k)"
    by (simp add: get_cached_location_db_def get_cached_location_try_def select_geocache_def)
qed

theorem cache_get_never_raises_witness:
  "get_cached_location_db Connect_fails [biloxi_row] ''Biloxi|MS''
     = (None, Log_cache_read_error ''Biloxi|MS'')
   \<and> get_cached_location_db Db_ok [biloxi_row] ''Jackson|MS''
     = (None, Log_cache_miss ''Jackson|MS'')
   \<and> get_cached_location_db Db_ok [biloxi_row] ''Biloxi|MS''
     = (Some (30.39, -88.89), Log_cache_hit ''Biloxi|MS'')"
  using cache_get_never_raises [of Connect_fails "[biloxi_row]" "''Biloxi|MS''" biloxi_row]
        cache_get_never_raises [of Db_ok "[biloxi_row]" "''Jackson|MS''" biloxi_row]
        cache_get_never_raises [of Db_ok "[biloxi_row]" "''Biloxi|MS''" biloxi_row]
  by (simp add: biloxi_row_def)

section \<open>Frame properties of the marker placer\<close>

lemma set_status_frame [simp]:
  "case_log (set_status s st) = case_log st"
  "geocache (set_status s st) = geocache st"
  "map_widget (set_status s st) = map_widget st"
  "map_markers (set_status s st) = map_markers st"
  "grouped_cases_by_location (set_status s st) = grouped_cases_by_location st"
  "geocoding_queue (set_status s st) = geocoding_queue st"
  "pending_marker_locations (set_status s st) = pending_marker_locations st"
  "geocoded_results (set_status s st) = geocoded_results st"
  "geocoding_thread (set_status s st) = geocoding_thread st"
  "processing_queue (set_status s st) = processing_queue st"
  "scheduled_polls (set_status s st) = scheduled_polls st"
  "clock (set_status s st) = clock st"
  "provider_calls (set_status s st) = provider_calls st"
  "db_ops (set_status s st) = db_ops st"
  "app_log (set_status s st) = app_log st"
  by (simp_all add: set_status_def split: option.splits)

lemma place_map_marker_frame [simp]:
  "case_log (place_map_marker c s co st) = case_log st"
  "geocache (place_map_marker c s co st) = geocache st"
  "map_status_label (place_map_marker c s co st) = map_status_label st"
  "grouped_cases_by_location (place_map_marker c s co st) = grouped_cases_by_location st"
  "geocoding_queue (place_map_marker c s co st) = geocoding_queue st"
  "pending_marker_locations (place_map_marker c s co st) = pending_marker_locations st"
  "geocoded_results (place_map_marker c s co st) = geocoded_results st"
  "geocoding_thread (place_map_marker c s co st) = geocoding_thread st"
  "processing_queue (place_map_marker c s co st) = processing_queue st"
  "scheduled_polls (place_map_marker c s co st) = scheduled_polls st"
  "clock (place_map_marker c s co st) = clock st"
  "provider_calls (place_map_marker c s co st) = provider_calls st"
  "db_ops (place_map_marker c s co st) = db_ops st"
  by (simp_all add: place_map_marker_def Let_def split: option.splits)

lemma place_map_marker_widget [simp]:
  "(map_widget (place_map_marker c s co st) = None) = (map_widget st = None)"
  by (simp add: place_map_marker_def Let_def split: option.splits)

lemma place_map_marker_markers:
  "map_markers (place_map_marker c s co st) =
     (if map_widget st = None then map_markers st
      else AList.update (c, s) (marker_for (grouped_cases_by_location st) (c, s, co)) (map_markers st))"
  by (simp add: place_map_marker_def marker_for_def Let_def split: option.splits)

lemma place_all_Nil [simp]: "place_all [] st = st"
  by (simp add: place_all_def)

lemma place_all_Cons [simp]:
  "place_all ((c, s, co) # rs) st = place_all rs (place_map_marker c s co st)"
  by (simp add: place_all_def)

lemma place_all_append: "place_all (rs @ rs') st = place_all rs' (place_all rs st)"
  by (simp add: place_all_def)

lemma place_all_frame_conj:
  "case_log (place_all rs st) = case_log st
   \<and> geocache (place_all rs st) = geocache st
   \<and> map_status_label (place_all rs st) = map_status_label st
   \<and> grouped_cases_by_location (place_all rs st) = grouped_cases_by_location st
   \<and> geocoding_queue (place_all rs st) = geocoding_queue st
   \<and> pending_marker_locations (place_all rs st) = pending_marker_locations st
   \<and> geocoded_results (place_all rs st) = geocoded_results st
   \<and> geocoding_thread (place_all rs st) = geocoding_thread st
   \<and> processing_queue (place_all rs st) = processing_queue st
   \<and> scheduled_polls (place_all rs st) = scheduled_polls st
   \<and> clock (place_all rs st) = clock st
   \<and> provider_calls (place_all rs st) = provider_calls st
   \<and> db_ops (place_all rs st) = db_ops st
   \<and> (map_widget (place_all rs st) = None) = (map_widget st = None)"
proof (induction rs arbitrary: st)
  case Nil
  show ?case by simp
next
  case (Cons r rs)
  obtain c s co where r: "r = (c, s, co)" by (cases r) auto
  show ?case unfolding r place_all_Cons using Cons.IH [of "place_map_marker c s co st"]
    by simp
qed

lemma place_all_frame [simp]:
  "case_log (place_all rs st) = case_log st"
  "geocache (place_all rs st) = geocache st"
  "map_status_label (place_all rs st) = map_status_label st"
  "grouped_cases_by_location (place_all rs st) = grouped_cases_by_location st"
  "geocoding_queue (place_all rs st) = geocoding_queue st"
  "pending_marker_locations (place_all rs st) = pending_marker_locations st"
  "geocoded_results (place_all rs st) = geocoded_results st"
  "geocoding_thread (place_all rs st) = geocoding_thread st"
  "processing_queue (place_all rs st) = processing_queue st"
  "scheduled_polls (place_all rs st) = scheduled_polls st"
  "clock (place_all rs st) = clock st"
  "provider_calls (place_all rs st) = provider_calls st"
  "db_ops (place_all rs st) = db_ops st"
  "(map_widget (place_all rs st) = None) = (map_widget st = None)"
  using place_all_frame_conj [of rs st] by simp_all

lemma place_all_markers:
  "map_markers (place_all rs st) =
     (if map_widget st = None then map_markers st
      else put_markers (grouped_cases_by_location st) rs (map_markers st))"
proof (induction rs arbitrary: st)
  case Nil
  then show ?case by (simp add: put_markers_def)
next
  case (Cons r rs)
  obtain c s co where r: "r = (c, s, co)" by (cases r) auto
  show ?case
    by (simp add: r Cons.IH place_map_marker_markers put_markers_def)
qed

section \<open>Properties of the grouping\<close>

lemma group_cases_step:
  "group_cases (c # cs) g =
     (if has_location c
      then group_cases cs
             (AList.update (location_of c)
                ((case map_of g (location_of c) of None \<Rightarrow> [] | Some l \<Rightarrow> l) @ [c]) g)
      else group_cases cs g)"
proof -
  have "AList.update k (v @ [c]) (AList.update k [] g) = AList.update k (v @ [c]) g" for k v
    by simp
  then show ?thesis
    by (auto simp: Let_def has_location_def location_of_def AList.update_conv' split: option.splits)
qed

lemma map_of_group_cases:
  "map_of (group_cases cs g) k =
     (case map_of g k of
        None \<Rightarrow> (if members_of k cs = [] then None else Some (members_of k cs))
      | Some l \<Rightarrow> Some (l @ members_of k cs))"
proof (induction cs arbitrary: g)
  case Nil
  then show ?case by (simp add: members_of_def split: option.splits)
next
  case (Cons c cs)
  show ?case
    unfolding group_cases_step
    by (auto simp: Cons.IH AList.update_conv' members_of_def split: option.splits)
qed

lemma distinct_group_cases:
  "distinct (map fst g) \<Longrightarrow> distinct (map fst (group_cases cs g))"
proof (induction cs arbitrary: g)
  case Nil
  then show ?case by simp
next
  case (Cons c cs)
  then show ?case
    unfolding group_cases_step by (simp add: AList.distinct_update)
qed

lemma members_of_empty_iff: "members_of k cases = [] \<longleftrightarrow> k \<notin> set (location_pairs cases)"
  by (auto simp: members_of_def location_pairs_def filter_empty_conv)

lemma keys_group_cases: "set (map fst (group_cases cases [])) = set (location_pairs cases)"
proof -
  have "set (map fst (group_cases cases [])) = dom (map_of (group_cases cases []))"
    by (simp add: dom_map_of_conv_image_fst)
  also have "\<dots> = {k. members_of k cases \<noteq> []}"
    by (auto simp: map_of_group_cases dom_def)
  also have "\<dots> = set (location_pairs cases)"
    by (auto simp: members_of_empty_iff)
  finally show ?thesis .
qed

lemma length_group_cases: "length (group_cases cases []) = length (location_pairs cases)"
proof -
  have "distinct (map fst (group_cases cases []))" by (simp add: distinct_group_cases)
  then have "length (map fst (group_cases cases [])) = card (set (map fst (group_cases cases [])))"
    by (simp only: distinct_card)
  also have "\<dots> = card (set (location_pairs cases))" by (simp only: keys_group_cases)
  also have "\<dots> = length (location_pairs cases)"
    unfolding location_pairs_def by (rule distinct_card) simp
  finally show ?thesis by simp
qed

section \<open>Properties of the partition into cached and pending locations\<close>

lemma put_markers_Nil [simp]: "put_markers g [] ms = ms"
  by (simp add: put_markers_def)

lemma put_markers_Cons [simp]:
  "put_markers g (r # rs) ms = put_markers g rs (AList.update (fst r, fst (snd r)) (marker_for g r) ms)"
  by (simp add: put_markers_def)

lemma put_markers_append: "put_markers g (rs @ rs') ms = put_markers g rs' (put_markers g rs ms)"
  by (simp add: put_markers_def)

lemma keys_put_markers:
  "fst ` set (put_markers g rs ms) = fst ` set ms \<union> (\<lambda>r. (fst r, fst (snd r))) ` set rs"
proof (induction rs arbitrary: ms)
  case Nil
  show ?case by simp
next
  case (Cons r rs)
  show ?case by (simp add: Cons.IH AList.dom_update Un_assoc)
qed

lemma distinct_put_markers:
  "distinct (map fst ms) \<Longrightarrow> distinct (map fst (put_markers g rs ms))"
proof (induction rs arbitrary: ms)
  case Nil
  then show ?case by simp
next
  case (Cons r rs)
  from Cons.prems have "distinct (map fst (AList.update (fst r, fst (snd r)) (marker_for g r) ms))"
    by (rule AList.distinct_update)
  then show ?case by (simp add: Cons.IH)
qed

lemma partition_locations_Cons:
  "partition_locations ev ((c, s) # ks) st =
     (let res = get_cached_location_db (db_fault_at ev (db_ops st)) (geocache st) (c @ ''|'' @ s);
          st1 = st\<lparr>db_ops := Suc (db_ops st), app_log := app_log st @ [snd res]\<rparr>
      in partition_locations ev ks
           (case fst res of
              Some coords \<Rightarrow> place_map_marker c s coords st1
            | None \<Rightarrow> st1\<lparr>pending_marker_locations := pending_marker_locations st1 @ [(c, s)],
                             geocoding_queue := geocoding_queue st1 @ [(c, s)]\<rparr>))"
  by (simp add: Let_def split: option.splits)

lemma partition_locations_frame_conj:
  "case_log (partition_locations ev ks st) = case_log st
   \<and> geocache (partition_locations ev ks st) = geocache st
   \<and> map_status_label (partition_locations ev ks st) = map_status_label st
   \<and> grouped_cases_by_location (partition_locations ev ks st) = grouped_cases_by_location st
   \<and> geocoded_results (partition_locations ev ks st) = geocoded_results st
   \<and> geocoding_thread (partition_locations ev ks st) = geocoding_thread st
   \<and> processing_queue (partition_locations ev ks st) = processing_queue st
   \<and> scheduled_polls (partition_locations ev ks st) = scheduled_polls st
   \<and> clock (partition_locations ev ks st) = clock st
   \<and> provider_calls (partition_locations ev ks st) = provider_calls st
   \<and> (map_widget (partition_locations ev ks st) = None) = (map_widget st = None)"
proof (induction ks arbitrary: st)
  case Nil
  show ?case by simp
next
  case (Cons k ks)
  obtain c s where k: "k = (c, s)" by (cases k) auto
  define res where "res = get_cached_location_db (db_fault_at ev (db_ops st)) (geocache st) (c @ ''|'' @ s)"
  define st1 where "st1 = st\<lparr>db_ops := Suc (db_ops st), app_log := app_log st @ [snd res]\<rparr>"
  define st2 where "st2 = (case fst res of
              Some coords \<Rightarrow> place_map_marker c s coords st1
            | None \<Rightarrow> st1\<lparr>pending_marker_locations := pending_marker_locations st1 @ [(c, s)],
                             geocoding_queue := geocoding_queue st1 @ [(c, s)]\<rparr>)"
  have unfold: "partition_locations ev (k # ks) st = partition_locations ev ks st2"
    unfolding k partition_locations_Cons
    by (simp add: Let_def res_def st1_def st2_def split: option.splits)
  have one: "case_log st2 = case_log st \<and> geocache st2 = geocache st
      \<and> map_status_label st2 = map_status_label st
      \<and> grouped_cases_by_location st2 = grouped_cases_by_location st
      \<and> geocoded_results st2 = geocoded_results st
      \<and> geocoding_thread st2 = geocoding_thread st
      \<and> processing_queue st2 = processing_queue st
      \<and> scheduled_polls st2 = scheduled_polls st
      \<and> clock st2 = clock st
      \<and> provider_calls st2 = provider_calls st
      \<and> (map_widget st2 = None) = (map_widget st = None)"
    by (cases "fst res") (simp_all add: st2_def st1_def)
  show ?case unfolding unfold using Cons.IH [of st2] one by simp
qed

lemma partition_locations_frame [simp]:
  "case_log (partition_locations ev ks st) = case_log st"
  "geocache (partition_locations ev ks st) = geocache st"
  "map_status_label (partition_locations ev ks st) = map_status_label st"
  "grouped_cases_by_location (partition_locations ev ks st) = grouped_cases_by_location st"
  "geocoded_results (partition_locations ev ks st) = geocoded_results st"
  "geocoding_thread (partition_locations ev ks st) = geocoding_thread st"
  "processing_queue (partition_locations ev ks st) = processing_queue st"
  "scheduled_polls (partition_locations ev ks st) = scheduled_polls st"
  "clock (partition_locations ev ks st) = clock st"
  "provider_calls (partition_locations ev ks st) = provider_calls st"
  "(map_widget (partition_locations ev ks st) = None) = (map_widget st = None)"
  using partition_locations_frame_conj [of ev ks st] by simp_all

lemma partition_locations_keys:
  "map_widget st \<noteq> None \<Longrightarrow>
   set (map fst (map_markers (partition_locations ev ks st))) \<union> set (geocoding_queue (partition_locations ev ks st))
     = set (map fst (map_markers st)) \<union> set (geocoding_queue st) \<union> set ks"
proof (induction ks arbitrary: st)
  case Nil
  show ?case by simp
next
  case (Cons k ks)
  obtain c s where k: "k = (c, s)" by (cases k) auto
  define res where "res = get_cached_location_db (db_fault_at ev (db_ops st)) (geocache st) (c @ ''|'' @ s)"
  define st1 where "st1 = st\<lparr>db_ops := Suc (db_ops st), app_log := app_log st @ [snd res]\<rparr>"
  define st2 where "st2 = (case fst res of
              Some coords \<Rightarrow> place_map_marker c s coords st1
            | None \<Rightarrow> st1\<lparr>pending_marker_locations := pending_marker_locations st1 @ [(c, s)],
                             geocoding_queue := geocoding_queue st1 @ [(c, s)]\<rparr>)"
  have unfold: "partition_locations ev (k # ks) st = partition_locations ev ks st2"
    unfolding k partition_locations_Cons
    by (simp add: Let_def res_def st1_def st2_def split: option.splits)
  have w1: "map_widget st1 \<noteq> None" using Cons.prems by (simp add: st1_def)
  have w2: "map_widget st2 \<noteq> None"
  proof (cases "fst res")
    case None
    then show ?thesis using w1 by (simp add: st2_def)
  next
    case (Some co)
    then show ?thesis using w1 place_map_marker_widget [of c s co st1] by (simp add: st2_def)
  qed
  have upd: "fst ` set (AList.update (c, s) m ms) = {(c, s)} \<union> fst ` set ms" for m :: marker and ms
    by (rule AList.dom_update)
  have one: "set (map fst (map_markers st2)) \<union> set (geocoding_queue st2)
               = set (map fst (map_markers st)) \<union> set (geocoding_queue st) \<union> {(c, s)}"
  proof (cases "fst res")
    case None
    then show ?thesis by (simp add: st2_def st1_def)
  next
    case (Some co)
    have "map_markers st2 = AList.update (c, s) (marker_for (grouped_cases_by_location st1) (c, s, co)) (map_markers st1)"
      using w1 Some by (auto simp: st2_def place_map_marker_markers)
    then have "set (map fst (map_markers st2)) = {(c, s)} \<union> set (map fst (map_markers st))"
      by (simp add: AList.dom_update st1_def)
    moreover have "geocoding_queue st2 = geocoding_queue st"
      using Some by (simp add: st2_def st1_def)
    ultimately show ?thesis by auto
  qed
  have "set (map fst (map_markers (partition_locations ev (k # ks) st)))
          \<union> set (geocoding_queue (partition_locations ev (k # ks) st))
        = (set (map fst (map_markers st2)) \<union> set (geocoding_queue st2)) \<union> set ks"
    unfolding unfold by (rule Cons.IH [OF w2])
  also have "\<dots> = (set (map fst (map_markers st)) \<union> set (geocoding_queue st) \<union> {(c, s)}) \<union> set ks"
    by (simp only: one)
  also have "\<dots> = set (map fst (map_markers st)) \<union> set (geocoding_queue st) \<union> set (k # ks)"
    by (auto simp: k)
  finally show ?case .
qed

lemma partition_locations_distinct:
  "distinct (map fst (map_markers st)) \<Longrightarrow>
   distinct (map fst (map_markers (partition_locations ev ks st)))"
proof (induction ks arbitrary: st)
  case Nil
  then show ?case by simp
next
  case (Cons k ks)
  obtain c s where k: "k = (c, s)" by (cases k) auto
  define res where "res = get_cached_location_db (db_fault_at ev (db_ops st)) (geocache st) (c @ ''|'' @ s)"
  define st1 where "st1 = st\<lparr>db_ops := Suc (db_ops st), app_log := app_log st @ [snd res]\<rparr>"
  define st2 where "st2 = (case fst res of
              Some coords \<Rightarrow> place_map_marker c s coords st1
            | None \<Rightarrow> st1\<lparr>pending_marker_locations := pending_marker_locations st1 @ [(c, s)],
                             geocoding_queue := geocoding_queue st1 @ [(c, s)]\<rparr>)"
  have unfold: "partition_locations ev (k # ks) st = partition_locations ev ks st2"
    unfolding k partition_locations_Cons
    by (simp add: Let_def res_def st1_def st2_def split: option.splits)
  have "distinct (map fst (map_markers st1))" using Cons.prems by (simp add: st1_def)
  then have "distinct (map fst (map_markers st2))"
    by (cases "fst res") (simp_all add: st2_def place_map_marker_markers AList.distinct_update)
  then show ?case unfolding unfold by (rule Cons.IH)
qed

lemma partition_locations_pending:
  "pending_marker_locations st = geocoding_queue st \<Longrightarrow>
   pending_marker_locations (partition_locations ev ks st) = geocoding_queue (partition_locations ev ks st)"
proof (induction ks arbitrary: st)
  case Nil
  then show ?case by simp
next
  case (Cons k ks)
  obtain c s where k: "k = (c, s)" by (cases k) auto
  define res where "res = get_cached_location_db (db_fault_at ev (db_ops st)) (geocache st) (c @ ''|'' @ s)"
  define st1 where "st1 = st\<lparr>db_ops := Suc (db_ops st), app_log := app_log st @ [snd res]\<rparr>"
  define st2 where "st2 = (case fst res of
              Some coords \<Rightarrow> place_map_marker c s coords st1
            | None \<Rightarrow> st1\<lparr>pending_marker_locations := pending_marker_locations st1 @ [(c, s)],
                             geocoding_queue := geocoding_queue st1 @ [(c, s)]\<rparr>)"
  have unfold: "partition_locations ev (k # ks) st = partition_locations ev ks st2"
    unfolding k partition_locations_Cons
    by (simp add: Let_def res_def st1_def st2_def split: option.splits)
  have "pending_marker_locations st1 = geocoding_queue st1" using Cons.prems by (simp add: st1_def)
  then have "pending_marker_locations st2 = geocoding_queue st2"
    by (cases "fst res") (simp_all add: st2_def)
  then show ?case unfolding unfold by (rule Cons.IH)
qed

end
